theory Spec2Isabelle
  imports Main
begin

section \<open>The scaling constants of featureScaling.py\<close>

text \<open>
  The module consists of documentation strings and six module-level assignments, one per
  numbered section. Five of them bind a Python string, one (section 3, the physical control
  variables) binds a dictionary from column name to scaler name.

  A Python string is modelled as a \<open>string\<close>. The only character beyond ASCII in a
  constant is the en dash of \<open>Yeo-Johnson\<close> (U+2013); it is kept as the three bytes the
  source file holds for it. Nothing below counts characters, and the separator of recipe
  steps is ASCII.
\<close>

definition en_dash :: string where
  "en_dash = [CHR 0xE2, CHR 0x80, CHR 0x93]"

definition PRESSURE_SCALING :: string where
  "PRESSURE_SCALING = ''log1p + RobustScaler''"

definition ADSORPTION_SCALING :: string where
  "ADSORPTION_SCALING = ''StandardScaler''"

definition PHYSICAL_SCALING :: "(string \<times> string) list" where
  "PHYSICAL_SCALING = [(''Temperature'', ''StandardScaler''), (''Depth'', ''MinMaxScaler'')]"

definition PROXIMATE_SCALING :: string where
  "PROXIMATE_SCALING = ''MinMaxScaler''"

definition MACERAL_SCALING :: string where
  "MACERAL_SCALING = ''PowerTransformer (Yeo'' @ en_dash @ ''Johnson) + RobustScaler''"

definition CORRELATION_SCALING :: string where
  "CORRELATION_SCALING = ''MinMaxScaler''"

text \<open>
  The values a constant of the module can hold, and the module body as the list of its
  assignments in source order (lines 54, 88, 119, 154, 193, 221).
\<close>

datatype pyval = Str string | Dict "(string \<times> string) list"

definition module_constants :: "(string \<times> pyval) list" where
  "module_constants =
     [(''PRESSURE_SCALING'', Str PRESSURE_SCALING),
      (''ADSORPTION_SCALING'', Str ADSORPTION_SCALING),
      (''PHYSICAL_SCALING'', Dict PHYSICAL_SCALING),
      (''PROXIMATE_SCALING'', Str PROXIMATE_SCALING),
      (''MACERAL_SCALING'', Str MACERAL_SCALING),
      (''CORRELATION_SCALING'', Str CORRELATION_SCALING)]"

subsection \<open>Reading the steps of a recipe string\<close>

text \<open>
  The source writes a recipe of several steps as the step names joined by \<open>" + "\<close>
  (lines 54 and 193: "apply ..., follow with ..."). \<open>split_steps\<close> reads the steps back
  in their order, cutting at every occurrence of the separator from left to right, as
  Python's \<open>s.split(" + ")\<close> does; a string without the separator is a single step.
\<close>

fun split_steps_acc :: "string \<Rightarrow> string \<Rightarrow> string list" where
  "split_steps_acc acc [] = [rev acc]"
| "split_steps_acc acc (c # cs) =
     (if take 3 (c # cs) = '' + ''
      then rev acc # split_steps_acc [] (drop 2 cs)
      else split_steps_acc (c # acc) cs)"

definition split_steps :: "string \<Rightarrow> string list" where
  "split_steps s = split_steps_acc [] s"

text \<open>
  The step sequences a constant records: one for a string, one per column for a
  dictionary.
\<close>

fun step_sequences :: "pyval \<Rightarrow> string list list" where
  "step_sequences (Str s) = [split_steps s]"
| "step_sequences (Dict cols) = map (\<lambda>(c, s). split_steps s) cols"

definition is_skew_reducer :: "string \<Rightarrow> bool" where
  "is_skew_reducer s =
     (s = ''log1p'' \<or> s = ''PowerTransformer (Yeo'' @ en_dash @ ''Johnson)'')"

definition is_rescaler :: "string \<Rightarrow> bool" where
  "is_rescaler s = (s = ''RobustScaler'')"

text \<open>
  \<open>rescale_before_skew ss\<close>: somewhere in \<open>ss\<close> a rescaling step stands before a
  skew-reducing step (the order the recipes must not have).
\<close>

fun rescale_before_skew :: "string list \<Rightarrow> bool" where
  "rescale_before_skew [] = False"
| "rescale_before_skew (s # ss) =
     ((is_rescaler s \<and> list_ex is_skew_reducer ss) \<or> rescale_before_skew ss)"

section \<open>The scaling policy table\<close>

text \<open>
  Modelled from the spec: the one error of the policy table (section 7). The module
  defines no function; the lookup interface of section 4.1 is modelled below over any
  table from group name to recipe.
\<close>

datatype error = UnknownGroupError

text \<open>
  Modelled from the spec: \<open>recipe_for(group_name)\<close> (section 4.1), absent from the
  module. It returns the recipe the table holds for the name and fails with
  \<open>UnknownGroupError\<close> when the table holds none.
\<close>

definition recipe_for :: "(string \<times> 'r) list \<Rightarrow> string \<Rightarrow> error + 'r" where
  "recipe_for table group_name =
     (case map_of table group_name of
        None \<Rightarrow> Inl UnknownGroupError
      | Some r \<Rightarrow> Inr r)"

text \<open>
  Modelled from the spec: \<open>all_groups()\<close> (section 4.1), absent from the module. It
  returns every group name of the table.
\<close>

definition all_groups :: "(string \<times> 'r) list \<Rightarrow> string set" where
  "all_groups table = set (map fst table)"

text \<open>
  Modelled from the spec: the group names of the serialized form (section 6) for the
  constants of the module. A group is named after its section of the source
  (\<open>pressure\<close>, \<open>adsorption_volume\<close>, ...); the serialized form has no entry for
  section 3, "PHYSICAL CONTROL VARIABLES", which is named \<open>physical_control\<close> here by
  the same convention.
\<close>

definition group_key :: "string \<Rightarrow> string" where
  "group_key c =
     (if c = ''PRESSURE_SCALING'' then ''pressure''
      else if c = ''ADSORPTION_SCALING'' then ''adsorption_volume''
      else if c = ''PHYSICAL_SCALING'' then ''physical_control''
      else if c = ''PROXIMATE_SCALING'' then ''proximate_analysis''
      else if c = ''MACERAL_SCALING'' then ''maceral_composition''
      else if c = ''CORRELATION_SCALING'' then ''correlation_metric''
      else c)"

text \<open>
  Modelled from the spec: the step names of the serialized form (section 6) for the step
  names the source uses; any other name is kept as it is.
\<close>

definition step_name :: "string \<Rightarrow> string" where
  "step_name s =
     (if s = ''log1p'' then ''log1p''
      else if s = ''RobustScaler'' then ''robust_scale''
      else if s = ''StandardScaler'' then ''standard_scale''
      else if s = ''MinMaxScaler'' then ''minmax_scale''
      else if s = ''PowerTransformer (Yeo'' @ en_dash @ ''Johnson)'' then ''yeo_johnson''
      else s)"

text \<open>
  A recipe is an ordered sequence of steps for the whole group, or, for a group configured
  column by column, one such sequence per column.
\<close>

datatype recipe = GroupWide "string list" | PerColumn "(string \<times> string list) list"

fun recipe_of :: "pyval \<Rightarrow> recipe" where
  "recipe_of (Str s) = GroupWide (map step_name (split_steps s))"
| "recipe_of (Dict cols) = PerColumn (map (\<lambda>(c, s). (c, map step_name (split_steps s))) cols)"

text \<open>The configured table: every constant of the module, in source order.\<close>

definition policy_table :: "(string \<times> recipe) list" where
  "policy_table = map (\<lambda>(c, v). (group_key c, recipe_of v)) module_constants"

text \<open>The entries of a table by kind, in table order.\<close>

fun group_wide_entries :: "(string \<times> recipe) list \<Rightarrow> (string \<times> string list) list" where
  "group_wide_entries [] = []"
| "group_wide_entries ((g, GroupWide ss) # t) = (g, ss) # group_wide_entries t"
| "group_wide_entries ((g, PerColumn cols) # t) = group_wide_entries t"

fun per_column_entries :: "(string \<times> recipe) list \<Rightarrow> (string \<times> (string \<times> string list) list) list" where
  "per_column_entries [] = []"
| "per_column_entries ((g, GroupWide ss) # t) = per_column_entries t"
| "per_column_entries ((g, PerColumn cols) # t) = (g, cols) # per_column_entries t"






text \<open>The kind of value a constant holds.\<close>

fun is_str :: "pyval \<Rightarrow> bool" where
  "is_str (Str s) = True"
| "is_str (Dict cols) = False"

text \<open>
  Modelled from the spec: the serialized form as section 6 writes it, in its order.
\<close>

definition spec_serialized_form :: "(string \<times> string list) list" where
  "spec_serialized_form =
     [(''pressure'', [''log1p'', ''robust_scale'']),
      (''adsorption_volume'', [''standard_scale'']),
      (''proximate_analysis'', [''minmax_scale'']),
      (''maceral_composition'', [''yeo_johnson'', ''robust_scale'']),
      (''correlation_metric'', [''minmax_scale''])]"

text \<open>
  Modelled from the spec: the two-group table of the concrete scenario of section 8.
\<close>

definition two_group_table :: "(string \<times> string list) list" where
  "two_group_table =
     [(''pressure'', [''log1p'', ''robust_scale'']),
      (''proximate_analysis'', [''minmax_scale''])]"

section \<open>Evaluating the constants\<close>

lemmas scaling_constant_defs =
  PRESSURE_SCALING_def ADSORPTION_SCALING_def PHYSICAL_SCALING_def PROXIMATE_SCALING_def
  MACERAL_SCALING_def CORRELATION_SCALING_def en_dash_def

lemma split_steps_pressure: "split_steps PRESSURE_SCALING = [''log1p'', ''RobustScaler'']"
  by (simp add: split_steps_def PRESSURE_SCALING_def)

lemma split_steps_adsorption: "split_steps ADSORPTION_SCALING = [''StandardScaler'']"
  by (simp add: split_steps_def ADSORPTION_SCALING_def)

lemma split_steps_proximate: "split_steps PROXIMATE_SCALING = [''MinMaxScaler'']"
  by (simp add: split_steps_def PROXIMATE_SCALING_def)

lemma split_steps_maceral:
  "split_steps MACERAL_SCALING = [''PowerTransformer (Yeo'' @ en_dash @ ''Johnson)'', ''RobustScaler'']"
  by (simp add: split_steps_def MACERAL_SCALING_def en_dash_def)

lemma split_steps_correlation: "split_steps CORRELATION_SCALING = [''MinMaxScaler'']"
  by (simp add: split_steps_def CORRELATION_SCALING_def)

lemma step_sequences_physical:
  "step_sequences (Dict PHYSICAL_SCALING) = [[''StandardScaler''], [''MinMaxScaler'']]"
  by (simp add: split_steps_def PHYSICAL_SCALING_def)

lemma policy_table_eval:
  "policy_table =
     [(''pressure'', GroupWide [''log1p'', ''robust_scale'']),
      (''adsorption_volume'', GroupWide [''standard_scale'']),
      (''physical_control'',
         PerColumn [(''Temperature'', [''standard_scale'']), (''Depth'', [''minmax_scale''])]),
      (''proximate_analysis'', GroupWide [''minmax_scale'']),
      (''maceral_composition'', GroupWide [''yeo_johnson'', ''robust_scale'']),
      (''correlation_metric'', GroupWide [''minmax_scale''])]"
  by (simp add: policy_table_def module_constants_def group_key_def step_name_def
      split_steps_def scaling_constant_defs)

lemma all_groups_policy_table:
  "all_groups policy_table =
     {''pressure'', ''adsorption_volume'', ''physical_control'', ''proximate_analysis'',
      ''maceral_composition'', ''correlation_metric''}"
  by (simp add: all_groups_def policy_table_eval)

section \<open>The lookup interface\<close>

lemma recipe_for_unknown: "(recipe_for t g = Inl UnknownGroupError) = (g \<notin> all_groups t)"
proof (cases "map_of t g")
  case None
  then have "g \<notin> fst ` set t"
    by (simp add: map_of_eq_None_iff)
  with None show ?thesis
    by (simp add: recipe_for_def all_groups_def)
next
  case (Some r)
  then have "g \<in> fst ` set t"
    by (metis map_of_eq_None_iff option.distinct(1))
  with Some show ?thesis
    by (simp add: recipe_for_def all_groups_def)
qed

lemma recipe_for_configured:
  assumes "g \<in> all_groups t"
  shows "\<exists>r. recipe_for t g = Inr r \<and> (g, r) \<in> set t"
proof -
  from assms have "map_of t g \<noteq> None"
    by (simp add: all_groups_def map_of_eq_None_iff)
  then obtain r where r: "map_of t g = Some r"
    by blast
  then have "(g, r) \<in> set t"
    by (rule map_of_SomeD)
  with r show ?thesis
    by (simp add: recipe_for_def)
qed






section \<open>The claims\<close>



text \<open>
  C2. \<open>recipe_for(group_name)\<close> fails with \<open>UnknownGroupError\<close> if and only if the name is
  not among the configured group names; a configured name gets the recipe configured for
  it (no default stands in), \<open>UnknownGroupError\<close> is the only error, and
  \<open>recipe_for("nonexistent_group")\<close> fails with it.
\<close>

theorem recipe_for_unknown_group_iff:
  "(recipe_for t g = Inl UnknownGroupError) = (g \<notin> all_groups t)
     \<and> (g \<in> all_groups t \<longrightarrow> (\<exists>r. recipe_for t g = Inr r \<and> (g, r) \<in> set t))
     \<and> (recipe_for t g = Inl e \<longrightarrow> e = UnknownGroupError \<and> g \<notin> all_groups t)
     \<and> recipe_for policy_table ''nonexistent_group'' = Inl UnknownGroupError"
proof -
  have a: "(recipe_for t g = Inl UnknownGroupError) = (g \<notin> all_groups t)"
    by (rule recipe_for_unknown)
  have b: "g \<in> all_groups t \<longrightarrow> (\<exists>r. recipe_for t g = Inr r \<and> (g, r) \<in> set t)"
    using recipe_for_configured by blast
  have c: "recipe_for t g = Inl e \<longrightarrow> e = UnknownGroupError \<and> g \<notin> all_groups t"
    using a by (cases e) simp
  have d: "recipe_for policy_table ''nonexistent_group'' = Inl UnknownGroupError"
    by (simp add: recipe_for_def policy_table_eval)
  from a b c d show ?thesis
    by blast
qed

theorem recipe_for_unknown_group_iff_witness:
  "''pressure'' \<in> all_groups policy_table
     \<and> recipe_for policy_table ''pressure'' = Inr (GroupWide [''log1p'', ''robust_scale''])
     \<and> ''nonexistent_group'' \<notin> all_groups policy_table
     \<and> recipe_for policy_table ''nonexistent_group'' = Inl UnknownGroupError"
  using recipe_for_unknown_group_iff [of policy_table "''nonexistent_group''" UnknownGroupError]
  by (simp add: all_groups_def recipe_for_def policy_table_eval)



text \<open>
  C4. Recipe order is preserved exactly as configured: \<open>recipe_for("pressure")\<close> returns
  the ordered sequence \<open>["log1p", "robust_scale"]\<close>, the order in which the source string
  \<open>"log1p + RobustScaler"\<close> names its steps, and not \<open>["robust_scale", "log1p"]\<close>.
\<close>

theorem recipe_for_pressure_order:
  "recipe_for policy_table ''pressure'' = Inr (GroupWide [''log1p'', ''robust_scale''])
     \<and> recipe_for policy_table ''pressure'' \<noteq> Inr (GroupWide [''robust_scale'', ''log1p''])
     \<and> split_steps PRESSURE_SCALING = [''log1p'', ''RobustScaler'']
     \<and> recipe_of (Str PRESSURE_SCALING) = GroupWide [''log1p'', ''robust_scale'']"
  by (simp add: recipe_for_def policy_table_eval split_steps_pressure step_name_def)

text \<open>
  C5, as amended. The configured table, serialized from group name to ordered list of step
  names, has six groups: the five group-wide entries are exactly those of the spec's
  mapping, in its order, and the sixth is the physical-control group, configured per
  column with Temperature on \<open>["standard_scale"]\<close> and Depth on \<open>["minmax_scale"]\<close>.
\<close>

theorem policy_table_serialized:
  "group_wide_entries policy_table = spec_serialized_form
     \<and> per_column_entries policy_table =
         [(''physical_control'',
           [(''Temperature'', [''standard_scale'']), (''Depth'', [''minmax_scale''])])]
     \<and> length policy_table = 6"
  by (simp add: policy_table_eval spec_serialized_form_def)

text \<open>
  C5, as stated, fails: the module configures six groups, not five, and the
  physical-control group is among the configured groups but not among those of the spec's
  mapping.
\<close>

theorem policy_table_has_sixth_group:
  "length module_constants = 6 \<and> length policy_table = 6 \<and> distinct (map fst policy_table)
     \<and> length spec_serialized_form = 5
     \<and> ''physical_control'' \<in> all_groups policy_table
     \<and> ''physical_control'' \<notin> all_groups spec_serialized_form
     \<and> all_groups policy_table \<noteq> all_groups spec_serialized_form"
proof -
  have a: "''physical_control'' \<in> all_groups policy_table"
    by (simp add: all_groups_policy_table)
  have b: "''physical_control'' \<notin> all_groups spec_serialized_form"
    by (simp add: all_groups_def spec_serialized_form_def)
  from a b have c: "all_groups policy_table \<noteq> all_groups spec_serialized_form"
    by blast
  have d: "length module_constants = 6 \<and> length policy_table = 6
         \<and> distinct (map fst policy_table) \<and> length spec_serialized_form = 5"
    by (simp add: module_constants_def policy_table_eval spec_serialized_form_def)
  from a b c d show ?thesis
    by blast
qed

text \<open>
  C6. In every configured recipe of more than one step, the skew-reducing transform (log1p
  or Yeo-Johnson) comes first and the rescaling step (RobustScaler) second; no configured
  recipe has a rescaling step before a skew-reducing one.
\<close>

theorem skew_reducer_precedes_rescaler:
  assumes "(c, v) \<in> set module_constants" and "ss \<in> set (step_sequences v)"
    and "1 < length ss"
  shows "(\<exists>a. ss = [a, ''RobustScaler''] \<and> is_skew_reducer a \<and> is_rescaler ''RobustScaler'')
           \<and> \<not> rescale_before_skew ss"
proof -
  from assms(1) consider
      "v = Str PRESSURE_SCALING" | "v = Str ADSORPTION_SCALING" | "v = Dict PHYSICAL_SCALING"
    | "v = Str PROXIMATE_SCALING" | "v = Str MACERAL_SCALING" | "v = Str CORRELATION_SCALING"
    by (auto simp add: module_constants_def)
  then show ?thesis
  proof cases
    case 1
    with assms(2) have "ss = [''log1p'', ''RobustScaler'']"
      by (simp add: split_steps_pressure)
    then show ?thesis
      by (simp add: is_skew_reducer_def is_rescaler_def en_dash_def)
  next
    case 2
    with assms(2) have "ss = [''StandardScaler'']"
      by (simp add: split_steps_adsorption)
    with assms(3) show ?thesis
      by simp
  next
    case 3
    with assms(2) have "ss = [''StandardScaler''] \<or> ss = [''MinMaxScaler'']"
      unfolding 3 step_sequences_physical by simp
    with assms(3) show ?thesis
      by auto
  next
    case 4
    with assms(2) have "ss = [''MinMaxScaler'']"
      by (simp add: split_steps_proximate)
    with assms(3) show ?thesis
      by simp
  next
    case 5
    with assms(2) have "ss = [''PowerTransformer (Yeo'' @ en_dash @ ''Johnson)'', ''RobustScaler'']"
      by (simp add: split_steps_maceral)
    then show ?thesis
      by (simp add: is_skew_reducer_def is_rescaler_def en_dash_def)
  next
    case 6
    with assms(2) have "ss = [''MinMaxScaler'']"
      by (simp add: split_steps_correlation)
    with assms(3) show ?thesis
      by simp
  qed
qed

theorem skew_reducer_precedes_rescaler_witness:
  "(''PRESSURE_SCALING'', Str PRESSURE_SCALING) \<in> set module_constants
     \<and> [''log1p'', ''RobustScaler''] \<in> set (step_sequences (Str PRESSURE_SCALING))
     \<and> 1 < length [''log1p'', ''RobustScaler'']
     \<and> is_skew_reducer ''log1p'' \<and> is_rescaler ''RobustScaler''
     \<and> \<not> rescale_before_skew [''log1p'', ''RobustScaler'']
     \<and> rescale_before_skew [''RobustScaler'', ''log1p'']"
proof -
  have h1: "(''PRESSURE_SCALING'', Str PRESSURE_SCALING) \<in> set module_constants"
    by (simp add: module_constants_def)
  have h2: "[''log1p'', ''RobustScaler''] \<in> set (step_sequences (Str PRESSURE_SCALING))"
    by (simp add: split_steps_pressure)
  have h3: "1 < length [''log1p'', ''RobustScaler'']"
    by simp
  have r: "rescale_before_skew [''RobustScaler'', ''log1p'']"
    by (simp add: is_skew_reducer_def is_rescaler_def)
  from skew_reducer_precedes_rescaler [OF h1 h2 h3]
  have c: "is_skew_reducer ''log1p'' \<and> is_rescaler ''RobustScaler''
         \<and> \<not> rescale_before_skew [''log1p'', ''RobustScaler'']"
    by simp
  from h1 h2 h3 c r show ?thesis
    by blast
qed

text \<open>
  C8. For the Temperature/Depth (physical control) group the configuration records exactly
  one scaler per column: each column is listed once, Temperature with StandardScaler and
  Depth with MinMaxScaler alone, each a single step.
\<close>

theorem physical_one_scaler_per_column:
  "map fst PHYSICAL_SCALING = [''Temperature'', ''Depth'']
     \<and> distinct (map fst PHYSICAL_SCALING)
     \<and> map_of PHYSICAL_SCALING ''Temperature'' = Some ''StandardScaler''
     \<and> map_of PHYSICAL_SCALING ''Depth'' = Some ''MinMaxScaler''
     \<and> step_sequences (Dict PHYSICAL_SCALING) = [[''StandardScaler''], [''MinMaxScaler'']]
     \<and> recipe_for policy_table ''physical_control''
         = Inr (PerColumn [(''Temperature'', [''standard_scale'']), (''Depth'', [''minmax_scale''])])"
proof -
  have a: "map fst PHYSICAL_SCALING = [''Temperature'', ''Depth'']
         \<and> distinct (map fst PHYSICAL_SCALING)
         \<and> map_of PHYSICAL_SCALING ''Temperature'' = Some ''StandardScaler''
         \<and> map_of PHYSICAL_SCALING ''Depth'' = Some ''MinMaxScaler''"
    by (simp add: PHYSICAL_SCALING_def)
  have b: "recipe_for policy_table ''physical_control''
         = Inr (PerColumn [(''Temperature'', [''standard_scale'']), (''Depth'', [''minmax_scale''])])"
    by (simp add: recipe_for_def policy_table_eval)
  from a b step_sequences_physical show ?thesis
    by blast
qed

text \<open>
  C9. On the two-group table \<open>{"pressure": ["log1p", "robust_scale"], "proximate_analysis":
  ["minmax_scale"]}\<close>, \<open>all_groups()\<close> returns exactly \<open>{"pressure", "proximate_analysis"}\<close>
  and \<open>recipe_for("proximate_analysis")\<close> returns \<open>["minmax_scale"]\<close>, which is the
  serialized recipe of the source's \<open>PROXIMATE_SCALING\<close>.
\<close>

theorem two_group_table_scenario:
  "all_groups two_group_table = {''pressure'', ''proximate_analysis''}
     \<and> recipe_for two_group_table ''proximate_analysis'' = Inr [''minmax_scale'']
     \<and> map step_name (split_steps PROXIMATE_SCALING) = [''minmax_scale'']"
  by (simp add: all_groups_def recipe_for_def two_group_table_def split_steps_proximate
      step_name_def)

text \<open>
  C10. \<open>PHYSICAL_SCALING\<close> is a dictionary with exactly the keys \<open>"Temperature"\<close> and
  \<open>"Depth"\<close>, mapping Temperature to \<open>"StandardScaler"\<close> and Depth to \<open>"MinMaxScaler"\<close>: two
  distinct single-step scalers, one per column. It is the only constant of the module
  that is a dictionary; each of the other five is a single recipe string.
\<close>

theorem physical_scaling_dictionary:
  "set (map fst PHYSICAL_SCALING) = {''Temperature'', ''Depth''}
     \<and> length PHYSICAL_SCALING = 2
     \<and> map_of PHYSICAL_SCALING ''Temperature'' = Some ''StandardScaler''
     \<and> map_of PHYSICAL_SCALING ''Depth'' = Some ''MinMaxScaler''
     \<and> distinct (map snd PHYSICAL_SCALING)
     \<and> map (length \<circ> split_steps \<circ> snd) PHYSICAL_SCALING = [1, 1]
     \<and> map fst (filter (is_str \<circ> snd) module_constants)
         = [''PRESSURE_SCALING'', ''ADSORPTION_SCALING'', ''PROXIMATE_SCALING'',
            ''MACERAL_SCALING'', ''CORRELATION_SCALING'']
     \<and> filter (Not \<circ> is_str \<circ> snd) module_constants
         = [(''PHYSICAL_SCALING'', Dict PHYSICAL_SCALING)]"
proof -
  have a: "set (map fst PHYSICAL_SCALING) = {''Temperature'', ''Depth''}
         \<and> length PHYSICAL_SCALING = 2
         \<and> map_of PHYSICAL_SCALING ''Temperature'' = Some ''StandardScaler''
         \<and> map_of PHYSICAL_SCALING ''Depth'' = Some ''MinMaxScaler''
         \<and> distinct (map snd PHYSICAL_SCALING)"
    by (simp add: PHYSICAL_SCALING_def)
  have b: "map (length \<circ> split_steps \<circ> snd) PHYSICAL_SCALING = [1, 1]"
    by (simp add: PHYSICAL_SCALING_def split_steps_def)
  have c: "map fst (filter (is_str \<circ> snd) module_constants)
         = [''PRESSURE_SCALING'', ''ADSORPTION_SCALING'', ''PROXIMATE_SCALING'',
            ''MACERAL_SCALING'', ''CORRELATION_SCALING'']"
    by (simp add: module_constants_def)
  have d: "filter (Not \<circ> is_str \<circ> snd) module_constants
         = [(''PHYSICAL_SCALING'', Dict PHYSICAL_SCALING)]"
    by (simp add: module_constants_def)
  from a b c d show ?thesis
    by blast
qed

end
